theory Spec2Isabelle
  imports Complex_Main "HOL-Library.AList"
begin

section \<open>S2match: data model\<close>

text \<open>
  The development follows \<^verbatim>\<open>smatch/s2match.py\<close>. Scores are Python floats in the
  source; here they are real numbers, so every sum and quotient is exact.
  Node identifiers are the strings \<^verbatim>\<open>prefix + str(index)\<close> produced by the renaming
  step; a triple carries the index that \<^verbatim>\<open>int(name[len(prefix):])\<close> reads back.
\<close>

datatype py_error = IndexError | KeyError | TypeError | AssertionError

type_synonym vec = "real list"
type_synonym vectors = "string \<rightharpoonup> vec"
type_synonym simfun = "vec \<Rightarrow> vec \<Rightarrow> real"

text \<open>Instance and attribute triples: (label, node, value). Relation triples: (label, node 1, node 2).\<close>

type_synonym triple = "string \<times> nat \<times> string"
type_synonym rel_triple = "string \<times> nat \<times> nat"

text \<open>Keys of an inner dictionary of the weight dictionary: \<^verbatim>\<open>-1\<close> or a node pair.\<close>

datatype key = SelfK | PairK "int \<times> int"

type_synonym inner = "(key \<times> real) list"
type_synonym weight_dict = "((int \<times> int) \<times> inner) list"
type_synonym memo = "int list \<rightharpoonup> real"

section \<open>Strings\<close>

text \<open>
  \<^verbatim>\<open>str.lower\<close> follows the case tables of Unicode, which are not part of the repository:
  the pool builder takes it as an argument (the field \<^verbatim>\<open>str_lower\<close> of the parameters).
  On a string of ASCII characters it lowers the letters A to Z and leaves every other
  character as it is, which is \<^verbatim>\<open>ascii_lower\<close>; the concrete inputs below are ASCII.
\<close>

definition ascii_lower_char :: "char \<Rightarrow> char" where
  "ascii_lower_char c =
     (case map_of (zip ''ABCDEFGHIJKLMNOPQRSTUVWXYZ'' ''abcdefghijklmnopqrstuvwxyz'') c of
        Some d \<Rightarrow> d
      | None \<Rightarrow> c)"

definition ascii_lower :: "string \<Rightarrow> string" where
  "ascii_lower s = map ascii_lower_char s"

text \<open>\<^verbatim>\<open>s.split(c)\<close> for a one-character separator: never empty, keeps empty fields.\<close>

fun split :: "char \<Rightarrow> string \<Rightarrow> string list" where
  "split c [] = [[]]"
| "split c (x # xs) =
     (if x = c then [] # split c xs
      else (case split c xs of [] \<Rightarrow> [[x]] | w # ws \<Rightarrow> (x # w) # ws))"

text \<open>\<^verbatim>\<open>sep.join(ws)\<close>.\<close>

fun join :: "string \<Rightarrow> string list \<Rightarrow> string" where
  "join sep [] = []"
| "join sep [w] = w"
| "join sep (w # ws) = w @ sep @ join sep ws"

definition is_digit :: "char \<Rightarrow> bool" where
  "is_digit c = (c \<in> set ''0123456789'')"

text \<open>
  \<^verbatim>\<open>re.match(".*[0-9]+", a)\<close>: the match starts at the first character, \<^verbatim>\<open>.*\<close> runs
  over characters other than a newline, and one digit must follow. So the pattern
  matches exactly when a digit occurs before the first newline.
\<close>

definition re_match_digits :: "string \<Rightarrow> bool" where
  "re_match_digits a = list_ex is_digit (takeWhile (\<lambda>c. c \<noteq> CHR 0x0A) a)"

text \<open>Truth value of an optional string: \<^verbatim>\<open>None\<close> and the empty string are false.\<close>

definition truthy :: "string option \<Rightarrow> bool" where
  "truthy s = (case s of None \<Rightarrow> False | Some x \<Rightarrow> x \<noteq> [])"

section \<open>Similarity kernel\<close>

text \<open>
  The distance functions of scipy are outside the repository; the kernel takes the
  similarity function as an argument. Vectors of one table share one dimension, on which
  numpy's addition is the pointwise sum.
\<close>

definition vec_add :: "vec \<Rightarrow> vec \<Rightarrow> vec" where
  "vec_add a b = map2 (+) a b"

text \<open>\<^verbatim>\<open>np.sum(np.array(l), axis=0)\<close> on a list that is not empty.\<close>

definition np_sum :: "vec list \<Rightarrow> vec" where
  "np_sum l = foldl vec_add (hd l) (tl l)"

definition cityblock :: "vec \<Rightarrow> vec \<Rightarrow> real" where
  "cityblock a b = sum_list (map2 (\<lambda>x y. \<bar>x - y\<bar>) a b)"

definition cityblock_sim :: simfun where
  "cityblock_sim a b = 1 / (exp 1 powr cityblock a b)"

text \<open>
  \<^verbatim>\<open>get_sim_fun\<close> returns one of three functions; a name that is none of the three falls
  off the end of the function, which returns \<^verbatim>\<open>None\<close>. The three functions are
  arguments here, as they wrap scipy.
\<close>

definition get_sim_fun :: "simfun \<Rightarrow> simfun \<Rightarrow> simfun \<Rightarrow> string \<Rightarrow> simfun option" where
  "get_sim_fun cosine_sim euclidean_sim cityblock_sim' string =
     (if string = ''cosine'' then Some cosine_sim
      else if string = ''euclidean'' then Some euclidean_sim
      else if string = ''cityblock'' then Some cityblock_sim'
      else None)"

definition maybe_get_vec :: "string \<Rightarrow> vectors \<Rightarrow> string \<Rightarrow> vec option" where
  "maybe_get_vec word vecs mwp =
     (case vecs word of
        Some v \<Rightarrow> Some v
      | None \<Rightarrow>
          if CHR ''-'' \<in> set word then
            (if mwp = ''split'' then
               (let ws = split CHR ''-'' word;
                    l = List.map_filter vecs ws
                in if l \<noteq> [] then Some (np_sum l) else None)
             else None)
          else None)"

text \<open>The string without its last hyphen-separated field, when the code takes the label for a predicate.\<close>

definition wo_sense :: "string \<Rightarrow> string option" where
  "wo_sense a =
     (if CHR ''-'' \<in> set a \<and> re_match_digits a
      then Some (join ''-'' (butlast (split CHR ''-'' a)))
      else None)"

text \<open>The morphological extension: the vector of the stripped form followed by \<^verbatim>\<open>s\<close>.\<close>

definition add_morph :: "string \<Rightarrow> string option \<Rightarrow> vectors \<Rightarrow> vec \<Rightarrow> vec" where
  "add_morph a a_wo_sense vecs a_vec =
     (if CHR ''-'' \<in> set a \<and> truthy a_wo_sense then
        (case maybe_get_vec (the a_wo_sense @ ''s'') vecs ''None'' of
           Some v \<Rightarrow> vec_add a_vec v
         | None \<Rightarrow> a_vec)
      else a_vec)"

text \<open>
  \<^verbatim>\<open>maybe_sim\<close>. Calling a similarity function that is \<^verbatim>\<open>None\<close> raises a
  \<^verbatim>\<open>TypeError\<close>.
\<close>

definition maybe_sim ::
  "string \<Rightarrow> string \<Rightarrow> vectors \<Rightarrow> real \<Rightarrow> real \<Rightarrow> simfun option \<Rightarrow> string \<Rightarrow> py_error + real" where
  "maybe_sim a b vecs cutoff diffsense simfun mwp =
     (if a = b then Inr 1
      else
        let a_wo_sense = wo_sense a;
            b_wo_sense = wo_sense b
        in
        if truthy a_wo_sense \<and> truthy b_wo_sense \<and> a_wo_sense = b_wo_sense then Inr (1 * diffsense)
        else if truthy a_wo_sense \<and> a_wo_sense = Some b then Inr (1 * diffsense)
        else if truthy b_wo_sense \<and> b_wo_sense = Some a then Inr (1 * diffsense)
        else
          let a_vec = (if truthy a_wo_sense then maybe_get_vec (the a_wo_sense) vecs ''None''
                       else maybe_get_vec a vecs mwp);
              b_vec = (if truthy b_wo_sense then maybe_get_vec (the b_wo_sense) vecs ''None''
                       else maybe_get_vec b vecs mwp)
          in
          (case (a_vec, b_vec) of
             (Some av, Some bv) \<Rightarrow>
               let av' = add_morph a a_wo_sense vecs av;
                   bv' = add_morph b b_wo_sense vecs bv
               in
               (case simfun of
                  None \<Rightarrow> Inl TypeError
                | Some f \<Rightarrow>
                    let sim = f av' bv' in
                    if sim = 0 then Inr 0
                    else if sim > cutoff then
                      (if truthy a_wo_sense \<or> truthy b_wo_sense then Inr (sim * diffsense)
                       else Inr sim)
                    else Inr 0)
           | _ \<Rightarrow> Inr 0))"

text \<open>
  \<^verbatim>\<open>maybe_has_sim\<close>: the similarity cache is keyed by the two labels joined with an
  underscore. On a miss the similarity is computed with the literal strategy
  \<^verbatim>\<open>"split"\<close>, whatever \<^verbatim>\<open>mwp\<close> the caller passed.
\<close>

type_synonym sim_dict = "string \<rightharpoonup> real"

definition maybe_has_sim ::
  "string \<Rightarrow> string \<Rightarrow> sim_dict \<Rightarrow> vectors \<Rightarrow> real \<Rightarrow> real \<Rightarrow> simfun option \<Rightarrow> string
     \<Rightarrow> py_error + (real \<times> sim_dict)" where
  "maybe_has_sim a b sim_dict vecs cutoff diffsense simfun mwp =
     (case sim_dict (a @ ''_'' @ b) of
        Some s \<Rightarrow> Inr (s, sim_dict)
      | None \<Rightarrow>
          (case sim_dict (b @ ''_'' @ a) of
             Some s \<Rightarrow> Inr (s, sim_dict)
           | None \<Rightarrow>
               (case maybe_sim a b vecs cutoff diffsense simfun ''split'' of
                  Inl e \<Rightarrow> Inl e
                | Inr s \<Rightarrow> Inr (s, (sim_dict(a @ ''_'' @ b \<mapsto> s))(b @ ''_'' @ a \<mapsto> s)))))"

section \<open>Pool builder\<close>

text \<open>
  A Python set of node indices is kept as a list without repetitions in ascending
  order, the order in which CPython iterates over a set of small integers.
\<close>

definition set_add :: "int \<Rightarrow> int list \<Rightarrow> int list" where
  "set_add x s = (if x \<in> set s then s else insort x s)"

text \<open>\<^verbatim>\<open>candidate_mapping[node1_index].add(node2_index)\<close>; the index may be out of range.\<close>

definition cand_add :: "nat \<Rightarrow> nat \<Rightarrow> int list list \<Rightarrow> py_error + int list list" where
  "cand_add node1_index node2_index C =
     (if node1_index < length C
      then Inr (C[node1_index := set_add (int node2_index) (C ! node1_index)])
      else Inl IndexError)"

text \<open>
  \<^verbatim>\<open>weight_dict[node_pair][-1] += s\<close> when the pair is a key, else
  \<^verbatim>\<open>weight_dict[node_pair] = {-1: s}\<close>. Dictionaries are association lists in
  insertion order.
\<close>

definition add_self :: "int \<times> int \<Rightarrow> real \<Rightarrow> weight_dict \<Rightarrow> py_error + weight_dict" where
  "add_self node_pair s W =
     (case map_of W node_pair of
        Some d \<Rightarrow>
          (case map_of d SelfK of
             Some v \<Rightarrow> Inr (AList.update node_pair (AList.update SelfK (v + s) d) W)
           | None \<Rightarrow> Inl KeyError)
      | None \<Rightarrow> Inr (AList.update node_pair [(SelfK, s)] W))"

text \<open>One of the two symmetric updates of a relation match.\<close>

definition add_rel :: "int \<times> int \<Rightarrow> int \<times> int \<Rightarrow> weight_dict \<Rightarrow> weight_dict" where
  "add_rel node_pair1 node_pair2 W =
     (case map_of W node_pair1 of
        Some d \<Rightarrow>
          (case map_of d (PairK node_pair2) of
             Some v \<Rightarrow> AList.update node_pair1 (AList.update (PairK node_pair2) (v + 1) d) W
           | None \<Rightarrow> AList.update node_pair1 (AList.update (PairK node_pair2) 1 d) W)
      | None \<Rightarrow> AList.update node_pair1 [(SelfK, 0), (PairK node_pair2, 1)] W)"

record params =
  vectors :: vectors
  cutoff :: real
  diffsense :: real
  simfun :: "simfun option"
  mwp :: string
  weighting_scheme :: string
  str_lower :: "string \<Rightarrow> string"

record pool =
  candidate_mapping :: "int list list"
  weight_dict :: weight_dict
  sim_dict :: sim_dict

text \<open>A \<^verbatim>\<open>for\<close> loop over a list whose body may raise.\<close>

fun for_each :: "('a \<Rightarrow> 's \<Rightarrow> py_error + 's) \<Rightarrow> 'a list \<Rightarrow> 's \<Rightarrow> py_error + 's" where
  "for_each f [] s = Inr s"
| "for_each f (x # xs) s = (case f x s of Inl e \<Rightarrow> Inl e | Inr s' \<Rightarrow> for_each f xs s')"

definition add_candidate_self :: "nat \<Rightarrow> nat \<Rightarrow> real \<Rightarrow> sim_dict \<Rightarrow> pool \<Rightarrow> py_error + pool" where
  "add_candidate_self node1_index node2_index s sd st =
     (case cand_add node1_index node2_index (candidate_mapping st) of
        Inl e \<Rightarrow> Inl e
      | Inr C \<Rightarrow>
          (case add_self (int node1_index, int node2_index) s (weight_dict st) of
             Inl e \<Rightarrow> Inl e
           | Inr W \<Rightarrow> Inr \<lparr>candidate_mapping = C, weight_dict = W, sim_dict = sd\<rparr>))"

text \<open>Body of the instance loop for one pair of instance triples.\<close>

definition instance_step :: "params \<Rightarrow> triple \<Rightarrow> triple \<Rightarrow> pool \<Rightarrow> py_error + pool" where
  "instance_step ps t1 t2 st =
     (if str_lower ps (fst t1) = str_lower ps (fst t2) then
        (case maybe_has_sim (str_lower ps (snd (snd t1))) (str_lower ps (snd (snd t2))) (sim_dict st)
                (vectors ps) (cutoff ps) (diffsense ps) (simfun ps) (mwp ps) of
           Inl e \<Rightarrow> Inl e
         | Inr (similarity, sd) \<Rightarrow>
             let similarity' =
                   (if weighting_scheme ps = ''concept'' then similarity * 3
                    else if weighting_scheme ps = ''structure'' then similarity * (3333 / 10000)
                    else similarity)
             in add_candidate_self (fst (snd t1)) (fst (snd t2)) similarity' sd st)
      else Inr st)"

definition instance_row :: "params \<Rightarrow> triple list \<Rightarrow> triple \<Rightarrow> pool \<Rightarrow> py_error + pool" where
  "instance_row ps instance2 t1 st =
     for_each (instance_step ps t1) instance2
       (st\<lparr>candidate_mapping := candidate_mapping st @ [[]]\<rparr>)"

text \<open>Body of the attribute loop for one pair of attribute triples.\<close>

definition attribute_step :: "params \<Rightarrow> triple \<Rightarrow> triple \<Rightarrow> pool \<Rightarrow> py_error + pool" where
  "attribute_step ps t1 t2 st =
     (if str_lower ps (fst t1) = str_lower ps (fst t2)
          \<and> str_lower ps (snd (snd t1)) = str_lower ps (snd (snd t2)) then
        add_candidate_self (fst (snd t1)) (fst (snd t2)) 1 (sim_dict st) st
      else if str_lower ps (fst t1) = str_lower ps (fst t2) \<and> str_lower ps (fst t2) = ''top'' then
        (case maybe_has_sim (str_lower ps (snd (snd t1))) (str_lower ps (snd (snd t2))) (sim_dict st)
                (vectors ps) (cutoff ps) (diffsense ps) (simfun ps) (mwp ps) of
           Inl e \<Rightarrow> Inl e
         | Inr (similarity, sd) \<Rightarrow>
             add_candidate_self (fst (snd t1)) (fst (snd t2)) similarity sd st)
      else Inr st)"

text \<open>Body of the relation loop for one pair of relation triples.\<close>

definition relation_step :: "params \<Rightarrow> rel_triple \<Rightarrow> rel_triple \<Rightarrow> pool \<Rightarrow> py_error + pool" where
  "relation_step ps r1 r2 st =
     (if str_lower ps (fst r1) = str_lower ps (fst r2) then
        let node1_index_amr1 = fst (snd r1);
            node1_index_amr2 = fst (snd r2);
            node2_index_amr1 = snd (snd r1);
            node2_index_amr2 = snd (snd r2)
        in
        (case cand_add node1_index_amr1 node1_index_amr2 (candidate_mapping st) of
           Inl e \<Rightarrow> Inl e
         | Inr C1 \<Rightarrow>
             (case cand_add node2_index_amr1 node2_index_amr2 C1 of
                Inl e \<Rightarrow> Inl e
              | Inr C2 \<Rightarrow>
                  let node_pair1 = (int node1_index_amr1, int node1_index_amr2);
                      node_pair2 = (int node2_index_amr1, int node2_index_amr2)
                  in
                  if node_pair2 \<noteq> node_pair1 then
                    let (p1, p2) = (if node1_index_amr1 > node2_index_amr1
                                    then (node_pair2, node_pair1)
                                    else (node_pair1, node_pair2))
                    in Inr (st\<lparr>candidate_mapping := C2,
                                weight_dict := add_rel p2 p1 (add_rel p1 p2 (weight_dict st))\<rparr>)
                  else
                    (case add_self node_pair1 1 (weight_dict st) of
                       Inl e \<Rightarrow> Inl e
                     | Inr W \<Rightarrow> Inr (st\<lparr>candidate_mapping := C2, weight_dict := W\<rparr>))))
      else Inr st)"

definition compute_pool ::
  "triple list \<Rightarrow> triple list \<Rightarrow> rel_triple list \<Rightarrow> triple list \<Rightarrow> triple list \<Rightarrow> rel_triple list
     \<Rightarrow> params \<Rightarrow> py_error + (int list list \<times> weight_dict)" where
  "compute_pool instance1 attribute1 relation1 instance2 attribute2 relation2 ps =
     (if weighting_scheme ps \<notin> set [''concept'', ''structure'', ''standard''] then Inl AssertionError
      else
        (case for_each (instance_row ps instance2) instance1
                \<lparr>candidate_mapping = [], weight_dict = [], sim_dict = Map.empty\<rparr> of
           Inl e \<Rightarrow> Inl e
         | Inr st1 \<Rightarrow>
             (case for_each (\<lambda>t1. for_each (attribute_step ps t1) attribute2) attribute1 st1 of
                Inl e \<Rightarrow> Inl e
              | Inr st2 \<Rightarrow>
                  (case for_each (\<lambda>r1. for_each (relation_step ps r1) relation2) relation1 st2 of
                     Inl e \<Rightarrow> Inl e
                   | Inr st3 \<Rightarrow> Inr (candidate_mapping st3, weight_dict st3)))))"

section \<open>Scoring facade\<close>

definition compute_f :: "real \<Rightarrow> nat \<Rightarrow> nat \<Rightarrow> real \<times> real \<times> real" where
  "compute_f match_num test_num gold_num =
     (if test_num = 0 \<or> gold_num = 0 then (0, 0, 0)
      else
        let precision = (0 + match_num) / (real test_num + 0);
            recall = (0 + match_num) / (real gold_num + 0)
        in if precision + recall \<noteq> 0
           then (precision, recall, 2 * precision * recall / (precision + recall))
           else (precision, recall, 0))"

section \<open>Match evaluator\<close>

text \<open>List indexing and item assignment with Python's rules: a negative index counts from the end.\<close>

definition py_index :: "'a list \<Rightarrow> int \<Rightarrow> nat option" where
  "py_index xs i =
     (if 0 \<le> i \<and> i < int (length xs) then Some (nat i)
      else if i < 0 \<and> - int (length xs) \<le> i then Some (nat (int (length xs) + i))
      else None)"

definition py_nth :: "'a list \<Rightarrow> int \<Rightarrow> py_error + 'a" where
  "py_nth xs i = (case py_index xs i of None \<Rightarrow> Inl IndexError | Some k \<Rightarrow> Inr (xs ! k))"

definition py_update :: "'a list \<Rightarrow> int \<Rightarrow> 'a \<Rightarrow> py_error + 'a list" where
  "py_update xs i v = (case py_index xs i of None \<Rightarrow> Inl IndexError | Some k \<Rightarrow> Inr (xs[k := v]))"

text \<open>\<^verbatim>\<open>enumerate(mapping)\<close>.\<close>

definition enumerate_list :: "'a list \<Rightarrow> (int \<times> 'a) list" where
  "enumerate_list xs = zip (map int [0..<length xs]) xs"

text \<open>
  The loop of \<^verbatim>\<open>compute_match\<close> over the keys of \<^verbatim>\<open>weight_dict[(i, m)]\<close>; the entry's
  value is the value the dictionary holds under the key.
\<close>

fun match_keys :: "int list \<Rightarrow> int \<Rightarrow> inner \<Rightarrow> real \<Rightarrow> py_error + real" where
  "match_keys mapping i [] match_num = Inr match_num"
| "match_keys mapping i ((key, w) # d) match_num =
     (case key of
        SelfK \<Rightarrow> match_keys mapping i d (match_num + w)
      | PairK k \<Rightarrow>
          if fst k < i then match_keys mapping i d match_num
          else
            (case py_nth mapping (fst k) of
               Inl e \<Rightarrow> Inl e
             | Inr m \<Rightarrow>
                 if m = snd k then match_keys mapping i d (match_num + w)
                 else match_keys mapping i d match_num))"

definition match_node :: "int list \<Rightarrow> weight_dict \<Rightarrow> int \<times> int \<Rightarrow> real \<Rightarrow> py_error + real" where
  "match_node mapping W im match_num =
     (if snd im = - 1 then Inr match_num
      else
        (case map_of W im of
           None \<Rightarrow> Inr match_num
         | Some d \<Rightarrow> match_keys mapping (fst im) d match_num))"

text \<open>
  \<^verbatim>\<open>compute_match\<close>; the global \<^verbatim>\<open>match_triple_dict\<close> is passed in and returned. The
  global \<^verbatim>\<open>verbose\<close> is false throughout.
\<close>

definition compute_match :: "int list \<Rightarrow> weight_dict \<Rightarrow> memo \<Rightarrow> py_error + (real \<times> memo)" where
  "compute_match mapping W match_triple_dict =
     (case match_triple_dict mapping of
        Some v \<Rightarrow> Inr (v, match_triple_dict)
      | None \<Rightarrow>
          (case for_each (match_node mapping W) (enumerate_list mapping) 0 of
             Inl e \<Rightarrow> Inl e
           | Inr match_num \<Rightarrow> Inr (match_num, match_triple_dict(mapping \<mapsto> match_num))))"

section \<open>Neighbour gain\<close>

text \<open>
  The four loops of \<^verbatim>\<open>move_gain\<close> and \<^verbatim>\<open>swap_gain\<close> over the keys of one inner
  dictionary differ in the sign of the update and in whether keys whose first component
  is \<^verbatim>\<open>node_id1\<close> are skipped.
\<close>

fun gain_keys :: "real \<Rightarrow> int option \<Rightarrow> int list \<Rightarrow> inner \<Rightarrow> real \<Rightarrow> py_error + real" where
  "gain_keys sg skip ml [] gain = Inr gain"
| "gain_keys sg skip ml ((key, w) # d) gain =
     (case key of
        SelfK \<Rightarrow> gain_keys sg skip ml d (gain + sg * w)
      | PairK k \<Rightarrow>
          if skip = Some (fst k) then gain_keys sg skip ml d gain
          else
            (case py_nth ml (fst k) of
               Inl e \<Rightarrow> Inl e
             | Inr m \<Rightarrow>
                 if m = snd k then gain_keys sg skip ml d (gain + sg * w)
                 else gain_keys sg skip ml d gain))"

definition gain_pair ::
  "real \<Rightarrow> int option \<Rightarrow> int list \<Rightarrow> weight_dict \<Rightarrow> int \<times> int \<Rightarrow> real \<Rightarrow> py_error + real" where
  "gain_pair sg skip ml W p gain =
     (case map_of W p of None \<Rightarrow> Inr gain | Some d \<Rightarrow> gain_keys sg skip ml d gain)"

definition move_gain ::
  "int list \<Rightarrow> int \<Rightarrow> int \<Rightarrow> int \<Rightarrow> weight_dict \<Rightarrow> real \<Rightarrow> memo \<Rightarrow> py_error + (real \<times> memo)" where
  "move_gain mapping node_id old_id new_id W match_num match_triple_dict =
     (let new_mapping = (node_id, new_id);
          old_mapping = (node_id, old_id)
      in
      case py_update mapping node_id new_id of
        Inl e \<Rightarrow> Inl e
      | Inr new_mapping_list \<Rightarrow>
          (case match_triple_dict new_mapping_list of
             Some v \<Rightarrow> Inr (v - match_num, match_triple_dict)
           | None \<Rightarrow>
               (case gain_pair 1 None new_mapping_list W new_mapping 0 of
                  Inl e \<Rightarrow> Inl e
                | Inr g \<Rightarrow>
                    (case gain_pair (- 1) None mapping W old_mapping g of
                       Inl e \<Rightarrow> Inl e
                     | Inr gain \<Rightarrow>
                         Inr (gain, match_triple_dict(new_mapping_list \<mapsto> match_num + gain))))))"

definition swap_gain ::
  "int list \<Rightarrow> int \<Rightarrow> int \<Rightarrow> int \<Rightarrow> int \<Rightarrow> weight_dict \<Rightarrow> real \<Rightarrow> memo \<Rightarrow> py_error + (real \<times> memo)" where
  "swap_gain mapping node_id1 mapping_id1 node_id2 mapping_id2 W match_num match_triple_dict =
     (case py_update mapping node_id1 mapping_id2 of
        Inl e \<Rightarrow> Inl e
      | Inr l1 \<Rightarrow>
          (case py_update l1 node_id2 mapping_id1 of
             Inl e \<Rightarrow> Inl e
           | Inr new_mapping_list \<Rightarrow>
               (case match_triple_dict new_mapping_list of
                  Some v \<Rightarrow> Inr (v - match_num, match_triple_dict)
                | None \<Rightarrow>
                    let (new_mapping1, new_mapping2, old_mapping1, old_mapping2) =
                          (if node_id1 > node_id2
                           then ((node_id2, mapping_id1), (node_id1, mapping_id2),
                                 (node_id2, mapping_id2), (node_id1, mapping_id1))
                           else ((node_id1, mapping_id2), (node_id2, mapping_id1),
                                 (node_id1, mapping_id1), (node_id2, mapping_id2)))
                    in
                    (case gain_pair 1 None new_mapping_list W new_mapping1 0 of
                       Inl e \<Rightarrow> Inl e
                     | Inr g1 \<Rightarrow>
                         (case gain_pair 1 (Some node_id1) new_mapping_list W new_mapping2 g1 of
                            Inl e \<Rightarrow> Inl e
                          | Inr g2 \<Rightarrow>
                              (case gain_pair (- 1) None mapping W old_mapping1 g2 of
                                 Inl e \<Rightarrow> Inl e
                               | Inr g3 \<Rightarrow>
                                   (case gain_pair (- 1) (Some node_id1) mapping W old_mapping2 g3 of
                                      Inl e \<Rightarrow> Inl e
                                    | Inr gain \<Rightarrow>
                                        Inr (gain,
                                             match_triple_dict(new_mapping_list \<mapsto> match_num + gain)))))))))"

section \<open>Views of the weight dictionary\<close>

text \<open>
  What the dictionary holds: whether a node pair is a key, the value under \<^verbatim>\<open>-1\<close> of
  its inner dictionary, and the value under a second node pair.
\<close>

definition has_pair :: "weight_dict \<Rightarrow> int \<times> int \<Rightarrow> bool" where
  "has_pair W p = (map_of W p \<noteq> None)"

definition self_lookup :: "weight_dict \<Rightarrow> int \<times> int \<Rightarrow> real option" where
  "self_lookup W p = (case map_of W p of None \<Rightarrow> None | Some d \<Rightarrow> map_of d SelfK)"

definition rel_lookup :: "weight_dict \<Rightarrow> int \<times> int \<Rightarrow> int \<times> int \<Rightarrow> real option" where
  "rel_lookup W p q = (case map_of W p of None \<Rightarrow> None | Some d \<Rightarrow> map_of d (PairK q))"

text \<open>
  Invariants of the dictionary that the pool builder maintains: keys occur once, every
  inner dictionary has the key \<^verbatim>\<open>-1\<close>, node indices are not negative, a relation entry
  never points to its own pair, its first component indexes the candidate list, and
  relation entries are stored under both pairs with the same count.
\<close>

definition distinct_keys :: "weight_dict \<Rightarrow> bool" where
  "distinct_keys W = (distinct (map fst W) \<and> list_all (\<lambda>(p, d). distinct (map fst d)) W)"

definition has_self :: "weight_dict \<Rightarrow> bool" where
  "has_self W = (\<forall>p. has_pair W p \<longrightarrow> self_lookup W p \<noteq> None \<and> 0 \<le> fst p \<and> 0 \<le> snd p)"

definition rel_range :: "nat \<Rightarrow> weight_dict \<Rightarrow> bool" where
  "rel_range n W =
     (\<forall>p q. rel_lookup W p q \<noteq> None \<longrightarrow> q \<noteq> p \<and> 0 \<le> fst q \<and> fst q < int n \<and> 0 \<le> snd q)"

definition rel_sym :: "weight_dict \<Rightarrow> bool" where
  "rel_sym W = (\<forall>p q. rel_lookup W p q = rel_lookup W q p)"

definition wf_weights :: "nat \<Rightarrow> weight_dict \<Rightarrow> bool" where
  "wf_weights n W \<longleftrightarrow> distinct_keys W \<and> has_self W \<and> rel_range n W \<and> rel_sym W"

definition pool_inv :: "nat \<Rightarrow> pool \<Rightarrow> bool" where
  "pool_inv n st \<longleftrightarrow> length (candidate_mapping st) = n \<and> wf_weights n (weight_dict st)"

section \<open>Concrete inputs\<close>

text \<open>
  The default configuration with an empty vector table, and the graph
  \<^verbatim>\<open>(w / want-01 :ARG0 (b / boy))\<close> after renaming.
\<close>

definition ex_params :: params where
  "ex_params = \<lparr>vectors = Map.empty, cutoff = 1 / 2, diffsense = 1 / 2, simfun = None,
                 mwp = ''split'', weighting_scheme = ''standard'', str_lower = ascii_lower\<rparr>"

definition ex_instance :: "triple list" where
  "ex_instance = [(''instance'', 0, ''want-01''), (''instance'', 1, ''boy'')]"

definition ex_attribute :: "triple list" where
  "ex_attribute = [(''TOP'', 0, ''want-01'')]"

definition ex_relation :: "rel_triple list" where
  "ex_relation = [(''ARG0'', 0, 1)]"

definition ex_weights :: weight_dict where
  "ex_weights = [((0, 0), [(SelfK, 2), (PairK (1, 1), 1)]), ((0, 1), [(SelfK, 0)]),
                 ((1, 0), [(SelfK, 0)]), ((1, 1), [(SelfK, 1), (PairK (0, 0), 1)])]"

text \<open>A vector table in which \<^verbatim>\<open>ice\<close> and \<^verbatim>\<open>cream\<close> sum to the vector of \<^verbatim>\<open>dessert\<close>.\<close>

definition ex_vectors :: vectors where
  "ex_vectors = [''ice'' \<mapsto> [1, 0], ''cream'' \<mapsto> [0, 1], ''dessert'' \<mapsto> [1, 1]]"

section \<open>The score of a mapping, as the specification states it\<close>

text \<open>
  The self score of a pair (0 when the pair is not a key), the relation count stored
  under a second pair (0 when absent), and the score of a mapping: the self scores of
  the mapped nodes plus, for every unordered pair of mapped nodes, the relation count of
  their two node pairs, counted once.
\<close>

definition self_score :: "weight_dict \<Rightarrow> int \<times> int \<Rightarrow> real" where
  "self_score W p = (case self_lookup W p of None \<Rightarrow> 0 | Some s \<Rightarrow> s)"

definition rel_count :: "weight_dict \<Rightarrow> int \<times> int \<Rightarrow> int \<times> int \<Rightarrow> real" where
  "rel_count W p q = (case rel_lookup W p q of None \<Rightarrow> 0 | Some k \<Rightarrow> k)"

definition score_spec :: "weight_dict \<Rightarrow> int list \<Rightarrow> real" where
  "score_spec W M =
     (\<Sum>i<length M. if M ! i \<noteq> - 1 then self_score W (int i, M ! i) else 0)
   + (\<Sum>i<length M. \<Sum>j\<in>{i<..<length M}.
        if M ! i \<noteq> - 1 \<and> M ! j \<noteq> - 1 then rel_count W (int i, M ! i) (int j, M ! j) else 0)"

text \<open>The value an inner dictionary holds for node j under the mapping M.\<close>

definition lk :: "inner \<Rightarrow> int list \<Rightarrow> nat \<Rightarrow> real" where
  "lk d M j = (case map_of d (PairK (int j, M ! j)) of None \<Rightarrow> 0 | Some k \<Rightarrow> k)"

definition self_of :: "inner \<Rightarrow> real" where
  "self_of d = (case map_of d SelfK of None \<Rightarrow> 0 | Some s \<Rightarrow> s)"

definition keys_in_range :: "nat \<Rightarrow> inner \<Rightarrow> bool" where
  "keys_in_range n d = (\<forall>k. PairK k \<in> fst ` set d \<longrightarrow> 0 \<le> fst k \<and> fst k < int n)"

definition pr :: "int list \<Rightarrow> nat \<Rightarrow> int \<times> int" where
  "pr M a = (int a, M ! a)"

definition node_score :: "weight_dict \<Rightarrow> int list \<Rightarrow> nat \<Rightarrow> real" where
  "node_score W M i = self_score W (pr M i) + (\<Sum>j\<in>{i<..<length M}. rel_count W (pr M i) (pr M j))"



text \<open>A table is consistent when every value it holds is the score of its key.\<close>

definition consistent :: "weight_dict \<Rightarrow> memo \<Rightarrow> bool" where
  "consistent W t = (\<forall>L v. t L = Some v \<longrightarrow> v = score_spec W L)"

section \<open>Hill-climber\<close>

text \<open>
  The running best of \<^verbatim>\<open>get_best_gain\<close>: the largest gain, whether it came from a swap,
  the two affected nodes (\<^verbatim>\<open>node1\<close> and \<^verbatim>\<open>node2\<close> are set together; \<^verbatim>\<open>None\<close> until the
  first improvement), and the table \<^verbatim>\<open>match_triple_dict\<close>.
\<close>

record best =
  largest_gain :: real
  use_swap :: bool
  nodes :: "(int \<times> int) option"
  table :: memo

text \<open>
  The nodes of the second graph that the mapping does not use, in ascending order
  (\<^verbatim>\<open>set(range(0, instance_len))\<close> with the values of the mapping removed).
\<close>

definition unmatched_nodes :: "int list \<Rightarrow> nat \<Rightarrow> int list" where
  "unmatched_nodes mapping instance_len =
     filter (\<lambda>x. x \<notin> set mapping) (map int [0..<instance_len])"

text \<open>Body of the move loop for node i, mapped to nid, and an unmatched node nm.\<close>

definition try_move ::
  "int list \<Rightarrow> int list list \<Rightarrow> weight_dict \<Rightarrow> real \<Rightarrow> int \<times> int \<Rightarrow> int \<Rightarrow> best \<Rightarrow> py_error + best" where
  "try_move mapping candidate_mappings W cur_match_num inid nm b =
     (case py_nth candidate_mappings (fst inid) of
        Inl e \<Rightarrow> Inl e
      | Inr cands \<Rightarrow>
          if nm \<in> set cands then
            (case move_gain mapping (fst inid) (snd inid) nm W cur_match_num (table b) of
               Inl e \<Rightarrow> Inl e
             | Inr (mv_gain, t) \<Rightarrow>
                 if mv_gain > largest_gain b
                 then Inr \<lparr>largest_gain = mv_gain, use_swap = False,
                           nodes = Some (fst inid, nm), table = t\<rparr>
                 else Inr (b\<lparr>table := t\<rparr>))
          else Inr b)"

text \<open>Body of the swap loop for node i, mapped to m, and a later node j.\<close>

definition try_swap ::
  "int list \<Rightarrow> weight_dict \<Rightarrow> real \<Rightarrow> int \<times> int \<Rightarrow> int \<Rightarrow> best \<Rightarrow> py_error + best" where
  "try_swap mapping W cur_match_num im j b =
     (case py_nth mapping j of
        Inl e \<Rightarrow> Inl e
      | Inr m2 \<Rightarrow>
          (case swap_gain mapping (fst im) (snd im) j m2 W cur_match_num (table b) of
             Inl e \<Rightarrow> Inl e
           | Inr (sw_gain, t) \<Rightarrow>
               if sw_gain > largest_gain b
               then Inr \<lparr>largest_gain = sw_gain, use_swap = True,
                         nodes = Some (fst im, j), table = t\<rparr>
               else Inr (b\<lparr>table := t\<rparr>)))"

text \<open>The new mapping: the best swap or move applied to a copy of the mapping.\<close>

definition apply_best :: "int list \<Rightarrow> best \<Rightarrow> py_error + int list" where
  "apply_best mapping b =
     (case nodes b of
        None \<Rightarrow> Inr mapping
      | Some (node1, node2) \<Rightarrow>
          if use_swap b then
            (case py_nth mapping node1 of
               Inl e \<Rightarrow> Inl e
             | Inr temp \<Rightarrow>
                 (case py_nth mapping node2 of
                    Inl e \<Rightarrow> Inl e
                  | Inr v2 \<Rightarrow>
                      (case py_update mapping node1 v2 of
                         Inl e \<Rightarrow> Inl e
                       | Inr l1 \<Rightarrow> py_update l1 node2 temp)))
          else py_update mapping node1 node2)"

definition get_best_gain ::
  "int list \<Rightarrow> int list list \<Rightarrow> weight_dict \<Rightarrow> nat \<Rightarrow> real \<Rightarrow> memo
     \<Rightarrow> py_error + (real \<times> int list \<times> memo)" where
  "get_best_gain mapping candidate_mappings W instance_len cur_match_num match_triple_dict =
     (let unmatched = unmatched_nodes mapping instance_len;
          b0 = \<lparr>largest_gain = 0, use_swap = True, nodes = None, table = match_triple_dict\<rparr>
      in
      case for_each (\<lambda>inid. for_each (try_move mapping candidate_mappings W cur_match_num inid)
                              unmatched)
             (enumerate_list mapping) b0 of
        Inl e \<Rightarrow> Inl e
      | Inr b1 \<Rightarrow>
          (case for_each (\<lambda>im. for_each (try_swap mapping W cur_match_num im)
                                  (map int [nat (fst im) + 1..<length mapping]))
                  (enumerate_list mapping) b1 of
             Inl e \<Rightarrow> Inl e
           | Inr b2 \<Rightarrow>
               (case apply_best mapping b2 of
                  Inl e \<Rightarrow> Inl e
                | Inr cur_mapping \<Rightarrow> Inr (largest_gain b2, cur_mapping, table b2))))"

text \<open>
  One pass of the \<^verbatim>\<open>while True\<close> loop of \<^verbatim>\<open>get_best_match\<close> on the current mapping,
  its match number and the table: the loop ends, or goes on with the new mapping.
\<close>

datatype 'a loop = Break 'a | Continue 'a

type_synonym climb = "int list \<times> real \<times> memo"

definition climb_step ::
  "int list list \<Rightarrow> weight_dict \<Rightarrow> nat \<Rightarrow> climb \<Rightarrow> py_error + climb loop" where
  "climb_step candidate_mappings W instance_len s =
     (case s of (cur_mapping, match_num, t) \<Rightarrow>
        (case get_best_gain cur_mapping candidate_mappings W instance_len match_num t of
           Inl e \<Rightarrow> Inl e
         | Inr (gain, new_mapping, t') \<Rightarrow>
             if gain \<le> 1 / 10 ^ 10 then Inr (Break (cur_mapping, match_num, t'))
             else Inr (Continue (new_mapping, match_num + gain, t'))))"

text \<open>The loop itself; \<^verbatim>\<open>None\<close> stands for a loop that never ends.\<close>

partial_function (option) hill_climb ::
  "int list list \<Rightarrow> weight_dict \<Rightarrow> nat \<Rightarrow> climb \<Rightarrow> (py_error + climb) option" where
  "hill_climb candidate_mappings W instance_len s =
     (case climb_step candidate_mappings W instance_len s of
        Inl e \<Rightarrow> Some (Inl e)
      | Inr (Break s') \<Rightarrow> Some (Inr s')
      | Inr (Continue s') \<Rightarrow> hill_climb candidate_mappings W instance_len s')"

declare hill_climb.simps [code]

section \<open>Initial mappings and restarts\<close>

text \<open>
  \<^verbatim>\<open>random.randint(0, n - 1)\<close> is read from a sequence of numbers that is not known:
  the k-th draw is the k-th number of the sequence modulo n.
\<close>

type_synonym rng = "nat \<Rightarrow> nat"

text \<open>
  The loop that draws candidates until one is not matched yet; a matched candidate is
  popped from the list. It returns the candidate found, if any, and the number of draws.
\<close>

function pick_unmatched :: "rng \<Rightarrow> nat \<Rightarrow> int list \<Rightarrow> int list \<Rightarrow> int option \<times> nat" where
  "pick_unmatched rnd k matched candidates =
     (if length candidates > 0 then
        (if candidates ! (rnd k mod length candidates) \<in> set matched
         then pick_unmatched rnd (Suc k) matched
                (take (rnd k mod length candidates) candidates
                   @ drop (Suc (rnd k mod length candidates)) candidates)
         else (Some (candidates ! (rnd k mod length candidates)), Suc k))
      else (None, k))"
  by pat_completeness auto
termination
proof (relation "measure (\<lambda>(rnd, k, matched, candidates). length candidates)")
  show "wf (measure (\<lambda>(rnd :: rng, k :: nat, matched :: int list, candidates :: int list).
          length candidates))"
    by simp
next
  fix rnd :: rng and k :: nat and matched candidates :: "int list"
  assume "0 < length candidates"
  then have "rnd k mod length candidates < length candidates" by simp
  then show "((rnd, Suc k, matched,
               take (rnd k mod length candidates) candidates
                 @ drop (Suc (rnd k mod length candidates)) candidates),
              (rnd, k, matched, candidates))
             \<in> measure (\<lambda>(rnd, k, matched, candidates). length candidates)"
    by simp
qed

text \<open>The first candidate with the concept of node i that is not matched yet.\<close>

fun first_match :: "string \<Rightarrow> triple list \<Rightarrow> int list \<Rightarrow> int list \<Rightarrow> py_error + int option" where
  "first_match value1 instance2 matched [] = Inr None"
| "first_match value1 instance2 matched (node_index # cs) =
     (case py_nth instance2 node_index of
        Inl e \<Rightarrow> Inl e
      | Inr t2 \<Rightarrow>
          if value1 = snd (snd t2) \<and> node_index \<notin> set matched then Inr (Some node_index)
          else first_match value1 instance2 matched cs)"

text \<open>
  First loop of \<^verbatim>\<open>smart_init_mapping\<close>, on the result, the matched nodes and the nodes
  without a concept match.
\<close>

definition smart_step ::
  "triple list \<Rightarrow> triple list \<Rightarrow> int \<times> int list \<Rightarrow> int list \<times> int list \<times> int list
     \<Rightarrow> py_error + (int list \<times> int list \<times> int list)" where
  "smart_step instance1 instance2 ic st =
     (case st of (result, matched, no_word_match) \<Rightarrow>
        if length (snd ic) = 0 then Inr (result @ [- 1], matched, no_word_match)
        else
          (case py_nth instance1 (fst ic) of
             Inl e \<Rightarrow> Inl e
           | Inr t1 \<Rightarrow>
               (case first_match (snd (snd t1)) instance2 matched (snd ic) of
                  Inl e \<Rightarrow> Inl e
                | Inr (Some node_index) \<Rightarrow>
                    Inr (result @ [node_index], matched @ [node_index], no_word_match)
                | Inr None \<Rightarrow> Inr (result @ [- 1], matched, no_word_match @ [fst ic]))))"

text \<open>
  Second loop of \<^verbatim>\<open>smart_init_mapping\<close>, on the result, the matched nodes and the draws.
  The argument \<^verbatim>\<open>candidate_mapping\<close> of the source is \<^verbatim>\<open>candidates_list\<close> here and below.
\<close>

definition smart_fill ::
  "rng \<Rightarrow> int list list \<Rightarrow> int \<Rightarrow> int list \<times> int list \<times> nat
     \<Rightarrow> py_error + (int list \<times> int list \<times> nat)" where
  "smart_fill rnd candidates_list i st =
     (case st of (result, matched, k) \<Rightarrow>
        (case py_nth candidates_list i of
           Inl e \<Rightarrow> Inl e
         | Inr candidates \<Rightarrow>
             (case pick_unmatched rnd k matched candidates of
                (Some c, k') \<Rightarrow>
                  (case py_update result i c of
                     Inl e \<Rightarrow> Inl e
                   | Inr result' \<Rightarrow> Inr (result', matched @ [c], k'))
              | (None, k') \<Rightarrow> Inr (result, matched, k'))))"

definition smart_init_mapping ::
  "rng \<Rightarrow> nat \<Rightarrow> int list list \<Rightarrow> triple list \<Rightarrow> triple list \<Rightarrow> py_error + (int list \<times> nat)" where
  "smart_init_mapping rnd k candidates_list instance1 instance2 =
     (case for_each (smart_step instance1 instance2) (enumerate_list candidates_list) ([], [], []) of
        Inl e \<Rightarrow> Inl e
      | Inr (result, matched, no_word_match) \<Rightarrow>
          (case for_each (smart_fill rnd candidates_list) no_word_match (result, matched, k) of
             Inl e \<Rightarrow> Inl e
           | Inr (result', matched', k') \<Rightarrow> Inr (result', k')))"

text \<open>Loop of \<^verbatim>\<open>random_init_mapping\<close>, on the result, the matched nodes and the draws.\<close>

definition random_step :: "rng \<Rightarrow> int list \<Rightarrow> int list \<times> int list \<times> nat \<Rightarrow> int list \<times> int list \<times> nat" where
  "random_step rnd c st =
     (case st of (result, matched, k) \<Rightarrow>
        if length c = 0 then (result @ [- 1], matched, k)
        else
          (case pick_unmatched rnd k matched c of
             (Some x, k') \<Rightarrow> (result @ [x], matched @ [x], k')
           | (None, k') \<Rightarrow> (result @ [- 1], matched, k')))"

definition random_init_mapping :: "rng \<Rightarrow> nat \<Rightarrow> int list list \<Rightarrow> int list \<times> nat" where
  "random_init_mapping rnd k candidates_list =
     (case fold (random_step rnd) candidates_list ([], [], k) of
        (result, matched, k') \<Rightarrow> (result, k'))"

text \<open>
  The restarts of \<^verbatim>\<open>get_best_match\<close>, on the best mapping, the best match number, the
  table and the draws.
\<close>

type_synonym search = "int list \<times> real \<times> memo \<times> nat"

fun run_restarts ::
  "rng \<Rightarrow> int list list \<Rightarrow> weight_dict \<Rightarrow> triple list \<Rightarrow> triple list \<Rightarrow> nat list \<Rightarrow> search
     \<Rightarrow> (py_error + search) option" where
  "run_restarts rnd candidate_mappings W instance1 instance2 [] s = Some (Inr s)"
| "run_restarts rnd candidate_mappings W instance1 instance2 (i # rest) s =
     (case s of (best_mapping, best_match_num, t, k) \<Rightarrow>
        (case (if i = 0 then smart_init_mapping rnd k candidate_mappings instance1 instance2
               else Inr (random_init_mapping rnd k candidate_mappings)) of
           Inl e \<Rightarrow> Some (Inl e)
         | Inr (cur_mapping, k') \<Rightarrow>
             (case compute_match cur_mapping W t of
                Inl e \<Rightarrow> Some (Inl e)
              | Inr (match_num, t1) \<Rightarrow>
                  (case hill_climb candidate_mappings W (length instance2) (cur_mapping, match_num, t1) of
                     None \<Rightarrow> None
                   | Some (Inl e) \<Rightarrow> Some (Inl e)
                   | Some (Inr (cur_mapping', match_num', t2)) \<Rightarrow>
                       run_restarts rnd candidate_mappings W instance1 instance2 rest
                         (if match_num' > best_match_num
                          then (cur_mapping', match_num', t2, k')
                          else (best_mapping, best_match_num, t2, k'))))))"

text \<open>
  \<^verbatim>\<open>get_best_match\<close>, with the global \<^verbatim>\<open>iteration_num\<close> and the sequence of random numbers
  as arguments; the table \<^verbatim>\<open>match_triple_dict\<close> is empty at the start of a pair.
\<close>

definition get_best_match ::
  "nat \<Rightarrow> rng \<Rightarrow> triple list \<Rightarrow> triple list \<Rightarrow> rel_triple list \<Rightarrow> triple list \<Rightarrow> triple list
     \<Rightarrow> rel_triple list \<Rightarrow> params \<Rightarrow> (py_error + (int list \<times> real)) option" where
  "get_best_match iteration_num rnd instance1 attribute1 relation1 instance2 attribute2 relation2 ps =
     (if weighting_scheme ps \<notin> set [''concept'', ''structure'', ''standard'']
      then Some (Inl AssertionError)
      else
        (case compute_pool instance1 attribute1 relation1 instance2 attribute2 relation2 ps of
           Inl e \<Rightarrow> Some (Inl e)
         | Inr (candidate_mappings, W) \<Rightarrow>
             (case run_restarts rnd candidate_mappings W instance1 instance2 [0..<iteration_num]
                     (replicate (length instance1) (- 1), 0, Map.empty, 0) of
                None \<Rightarrow> None
              | Some (Inl e) \<Rightarrow> Some (Inl e)
              | Some (Inr (best_mapping, best_match_num, t, k)) \<Rightarrow>
                  Some (Inr (best_mapping, best_match_num)))))"




text \<open>
  The running best after the neighbours in S have been tried: the table is consistent,
  no neighbour in S gains more than the largest gain, and the largest gain is the gain of
  the mapping that \<^verbatim>\<open>apply_best\<close> builds, which is the mapping itself (gain 0) or in S.
\<close>

definition best_ok :: "weight_dict \<Rightarrow> int list \<Rightarrow> int list set \<Rightarrow> best \<Rightarrow> bool" where
  "best_ok W M S b \<longleftrightarrow>
     consistent W (table b) \<and> 0 \<le> largest_gain b
   \<and> (\<forall>M'\<in>S. score_spec W M' - score_spec W M \<le> largest_gain b)
   \<and> (\<exists>M'. apply_best M b = Inr M' \<and> score_spec W M' = score_spec W M + largest_gain b
            \<and> (M' = M \<and> largest_gain b = 0 \<or> M' \<in> S))"



text \<open>
  The triples of \<^verbatim>\<open>(x / a :ARG0 (y / a_a_a) :ARG1 (z / a_a))\<close>, a graph of three nodes
  with the concepts \<^verbatim>\<open>a\<close>, \<^verbatim>\<open>a_a_a\<close> and \<^verbatim>\<open>a_a\<close>, and the weight dictionary of its
  comparison with itself.
\<close>

definition col_instance :: "triple list" where
  "col_instance =
     [(''instance'', 0, ''a''), (''instance'', 1, ''a_a_a''), (''instance'', 2, ''a_a'')]"

definition col_attribute :: "triple list" where
  "col_attribute = [(''TOP'', 0, ''a'')]"

definition col_relation :: "rel_triple list" where
  "col_relation = [(''ARG0'', 0, 1), (''ARG1'', 0, 2)]"

definition col_weights :: weight_dict where
  "col_weights =
     [((0, 0), [(SelfK, 2), (PairK (1, 1), 1), (PairK (2, 2), 1)]),
      ((0, 1), [(SelfK, 0)]), ((0, 2), [(SelfK, 0)]),
      ((1, 0), [(SelfK, 0)]), ((1, 1), [(SelfK, 1), (PairK (0, 0), 1)]),
      ((1, 2), [(SelfK, 0)]), ((2, 0), [(SelfK, 0)]),
      ((2, 1), [(SelfK, 0)]), ((2, 2), [(SelfK, 0), (PairK (0, 0), 1)])]"
section \<open>The pool builder maintains the invariants\<close>

lemma distinct_keys_update:
  "distinct_keys W \<Longrightarrow> distinct (map fst d) \<Longrightarrow> distinct_keys (AList.update p d W)"
proof (induction W)
  case Nil
  then show ?case by (simp add: distinct_keys_def)
next
  case (Cons a W)
  then show ?case
    by (cases a) (auto simp: distinct_keys_def AList.dom_update)
qed

lemma distinct_keys_lookup:
  "distinct_keys W \<Longrightarrow> map_of W p = Some d \<Longrightarrow> distinct (map fst d)"
  by (auto simp: distinct_keys_def list_all_iff dest!: map_of_SomeD)

lemma add_rel_views:
  "has_pair (add_rel p1 p2 W) p = (p = p1 \<or> has_pair W p)"
  "self_lookup (add_rel p1 p2 W) p = (if p = p1 \<and> \<not> has_pair W p1 then Some 0 else self_lookup W p)"
  "rel_lookup (add_rel p1 p2 W) p q =
     (if p = p1 \<and> q = p2 then Some (case rel_lookup W p1 p2 of Some v \<Rightarrow> v + 1 | None \<Rightarrow> 1)
      else rel_lookup W p q)"
  by (auto simp: add_rel_def has_pair_def self_lookup_def rel_lookup_def update_conv' split: option.splits)

lemma add_rel_distinct: "distinct_keys W \<Longrightarrow> distinct_keys (add_rel p1 p2 W)"
  by (auto simp: add_rel_def split: option.splits
      intro!: distinct_keys_update distinct_update dest: distinct_keys_lookup)

lemma add_self_has:
  "add_self p s W = Inr W' \<Longrightarrow> has_pair W' q = (q = p \<or> has_pair W q)"
  by (auto simp: add_self_def has_pair_def update_conv' split: option.splits if_splits)

lemma add_self_self:
  "add_self p s W = Inr W' \<Longrightarrow>
   self_lookup W' q = (if q = p then Some (case self_lookup W p of Some v \<Rightarrow> v + s | None \<Rightarrow> s) else self_lookup W q)"
  by (auto simp: add_self_def self_lookup_def update_conv' split: option.splits if_splits)

lemma add_self_rel:
  "add_self p s W = Inr W' \<Longrightarrow> rel_lookup W' q r = rel_lookup W q r"
  by (auto simp: add_self_def rel_lookup_def update_conv' split: option.splits if_splits)

lemma add_self_distinct: "add_self p s W = Inr W' \<Longrightarrow> distinct_keys W \<Longrightarrow> distinct_keys W'"
  by (auto simp: add_self_def split: option.splits
      intro!: distinct_keys_update distinct_update dest: distinct_keys_lookup)

lemma add_self_wf:
  assumes a: "add_self p s W = Inr W'" and w: "wf_weights n W" and p: "0 \<le> fst p" "0 \<le> snd p"
  shows "wf_weights n W'"
proof -
  have d: "distinct_keys W'" using add_self_distinct[OF a] w by (simp add: wf_weights_def)
  have s: "has_self W'"
    using w p unfolding wf_weights_def has_self_def add_self_has[OF a] add_self_self[OF a]
    by (simp del: split_paired_All split_paired_Ex)
  have "rel_range n W'" "rel_sym W'"
    using w unfolding wf_weights_def rel_range_def rel_sym_def add_self_rel[OF a] by blast+
  then show ?thesis
    using d s unfolding wf_weights_def by simp
qed

lemma add_rel_pair_wf:
  assumes w: "wf_weights n W" and ne: "p1 \<noteq> p2"
    and r: "0 \<le> fst p1" "0 \<le> snd p1" "0 \<le> fst p2" "0 \<le> snd p2" "fst p1 < int n" "fst p2 < int n"
  shows "wf_weights n (add_rel p2 p1 (add_rel p1 p2 W))"
proof -
  let ?W = "add_rel p2 p1 (add_rel p1 p2 W)"
  have d: "distinct_keys ?W" using w by (simp add: wf_weights_def add_rel_distinct)
  have s: "has_self ?W"
    using w r unfolding wf_weights_def has_self_def add_rel_views
    by (auto simp del: split_paired_All split_paired_Ex)
  have k: "rel_range n ?W"
    using w r ne unfolding wf_weights_def rel_range_def add_rel_views
    by (auto simp del: split_paired_All split_paired_Ex)
  have sym0: "rel_lookup W p1 p2 = rel_lookup W p2 p1" using w unfolding wf_weights_def rel_sym_def by blast
  have sym1: "\<And>p q. rel_lookup W p q = rel_lookup W q p" using w unfolding wf_weights_def rel_sym_def by blast
  have sym: "rel_sym ?W"
    unfolding rel_sym_def add_rel_views using ne sym0 sym1
    by (auto simp del: split_paired_All split_paired_Ex)
  show ?thesis using d s k sym unfolding wf_weights_def by simp
qed

lemma wf_weights_mono: "wf_weights n W \<Longrightarrow> n \<le> m \<Longrightarrow> wf_weights m W"
  unfolding wf_weights_def rel_range_def by (fastforce simp del: split_paired_All split_paired_Ex)


lemma for_each_inv:
  assumes "for_each f xs s = Inr s'" and "P s"
    and "\<forall>x t t'. P t \<longrightarrow> f x t = Inr t' \<longrightarrow> P t'"
  shows "P s'"
  using assms(1,2)
proof (induction xs arbitrary: s)
  case Nil
  then show ?case by simp
next
  case (Cons x xs)
  from Cons.prems(1) obtain t where t: "f x s = Inr t" and r: "for_each f xs t = Inr s'"
    by (auto split: sum.splits)
  have "P t" using assms(3) Cons.prems(2) t by blast
  then show ?case using Cons.IH[OF r] by blast
qed

lemma cand_add_length: "cand_add a b C = Inr C' \<Longrightarrow> length C' = length C \<and> a < length C"
  by (auto simp: cand_add_def split: if_splits)

lemma add_candidate_self_inv:
  assumes "add_candidate_self a b s sd st = Inr st'" "pool_inv n st"
  shows "pool_inv n st'"
proof -
  from assms(1) obtain C W where C: "cand_add a b (candidate_mapping st) = Inr C"
    and W: "add_self (int a, int b) s (weight_dict st) = Inr W"
    and st': "st' = \<lparr>candidate_mapping = C, weight_dict = W, sim_dict = sd\<rparr>"
    by (auto simp: add_candidate_self_def split: sum.splits)
  have "wf_weights n W" using add_self_wf[OF W] assms(2) by (simp add: pool_inv_def)
  then show ?thesis using cand_add_length[OF C] assms(2) st' by (simp add: pool_inv_def)
qed

lemma instance_step_inv:
  "instance_step ps t1 t2 st = Inr st' \<Longrightarrow> pool_inv n st \<Longrightarrow> pool_inv n st'"
  by (auto simp: instance_step_def Let_def split: if_splits sum.splits dest: add_candidate_self_inv)

lemma attribute_step_inv:
  "attribute_step ps t1 t2 st = Inr st' \<Longrightarrow> pool_inv n st \<Longrightarrow> pool_inv n st'"
  by (auto simp: attribute_step_def Let_def split: if_splits sum.splits dest: add_candidate_self_inv)

lemma relation_step_inv:
  assumes "relation_step ps r1 r2 st = Inr st'" "pool_inv n st"
  shows "pool_inv n st'"
proof (cases "str_lower ps (fst r1) = str_lower ps (fst r2)")
  case False
  then show ?thesis using assms by (simp add: relation_step_def)
next
  case True
  obtain l1 a1 b1 where r1: "r1 = (l1, a1, b1)" by (cases r1)
  obtain l2 a2 b2 where r2: "r2 = (l2, a2, b2)" by (cases r2)
  from assms(1) True obtain C1 C2 where C1: "cand_add a1 a2 (candidate_mapping st) = Inr C1"
    and C2: "cand_add b1 b2 C1 = Inr C2"
    by (auto simp: relation_step_def Let_def r1 r2 split: sum.splits)
  have len: "length C2 = n" "a1 < n" "b1 < n"
    using cand_add_length[OF C1] cand_add_length[OF C2] assms(2) by (auto simp: pool_inv_def)
  have w: "wf_weights n (weight_dict st)" using assms(2) by (simp add: pool_inv_def)
  show ?thesis
  proof (cases "(int b1, int b2) = (int a1, int a2)")
    case True
    with assms(1) \<open>str_lower ps (fst r1) = str_lower ps (fst r2)\<close> C1 C2 obtain W where
      W: "add_self (int a1, int a2) 1 (weight_dict st) = Inr W"
      and st': "st' = st\<lparr>candidate_mapping := C2, weight_dict := W\<rparr>"
      by (auto simp: relation_step_def Let_def r1 r2 split: sum.splits)
    show ?thesis using add_self_wf[OF W w] len st' by (simp add: pool_inv_def)
  next
    case False
    show ?thesis
    proof (cases "a1 > b1")
      case True
      with assms(1) \<open>str_lower ps (fst r1) = str_lower ps (fst r2)\<close> C1 C2 False
      have st': "st' = st\<lparr>candidate_mapping := C2,
          weight_dict := add_rel (int a1, int a2) (int b1, int b2) (add_rel (int b1, int b2) (int a1, int a2) (weight_dict st))\<rparr>"
        by (auto simp: relation_step_def Let_def r1 r2 split: sum.splits)
      have "wf_weights n (add_rel (int a1, int a2) (int b1, int b2) (add_rel (int b1, int b2) (int a1, int a2) (weight_dict st)))"
        using False len by (intro add_rel_pair_wf[OF w]) auto
      then show ?thesis using len st' by (simp add: pool_inv_def)
    next
      case False
      with assms(1) \<open>str_lower ps (fst r1) = str_lower ps (fst r2)\<close> C1 C2 \<open>(int b1, int b2) \<noteq> (int a1, int a2)\<close>
      have st': "st' = st\<lparr>candidate_mapping := C2,
          weight_dict := add_rel (int b1, int b2) (int a1, int a2) (add_rel (int a1, int a2) (int b1, int b2) (weight_dict st))\<rparr>"
        by (auto simp: relation_step_def Let_def r1 r2 split: sum.splits)
      have "wf_weights n (add_rel (int b1, int b2) (int a1, int a2) (add_rel (int a1, int a2) (int b1, int b2) (weight_dict st)))"
        using \<open>(int b1, int b2) \<noteq> (int a1, int a2)\<close> len by (intro add_rel_pair_wf[OF w]) auto
      then show ?thesis using len st' by (simp add: pool_inv_def)
    qed
  qed
qed

lemma instance_row_inv:
  assumes "instance_row ps instance2 t1 st = Inr st'" "pool_inv n st"
  shows "pool_inv (Suc n) st'"
proof -
  have "pool_inv (Suc n) (st\<lparr>candidate_mapping := candidate_mapping st @ [[]]\<rparr>)"
    using assms(2) wf_weights_mono[of n "weight_dict st" "Suc n"] by (simp add: pool_inv_def)
  moreover have "for_each (instance_step ps t1) instance2
      (st\<lparr>candidate_mapping := candidate_mapping st @ [[]]\<rparr>) = Inr st'"
    using assms(1) by (simp add: instance_row_def)
  moreover have "\<forall>x t t'. pool_inv (Suc n) t \<longrightarrow> instance_step ps t1 x t = Inr t' \<longrightarrow> pool_inv (Suc n) t'"
    using instance_step_inv by blast
  ultimately show ?thesis
    using for_each_inv[where P = "pool_inv (Suc n)" and f = "instance_step ps t1"] by blast
qed

lemma instance_loop_inv:
  "for_each (instance_row ps instance2) instance1 st = Inr st' \<Longrightarrow> pool_inv n st
     \<Longrightarrow> pool_inv (n + length instance1) st'"
proof (induction instance1 arbitrary: st n)
  case Nil
  then show ?case by simp
next
  case (Cons t ts)
  from Cons.prems(1) obtain u where u: "instance_row ps instance2 t st = Inr u"
    and r: "for_each (instance_row ps instance2) ts u = Inr st'"
    by (auto split: sum.splits)
  show ?case using Cons.IH[OF r instance_row_inv[OF u Cons.prems(2)]] by simp
qed

lemma wf_weights_empty: "wf_weights 0 []"
  by (simp add: wf_weights_def distinct_keys_def has_self_def rel_range_def rel_sym_def
      has_pair_def rel_lookup_def)

lemma compute_pool_wf:
  assumes "compute_pool instance1 attribute1 relation1 instance2 attribute2 relation2 ps = Inr (C, W)"
  shows "length C = length instance1 \<and> wf_weights (length instance1) W"
proof -
  let ?n = "length instance1"
  from assms obtain st1 st2 st3 where
    1: "for_each (instance_row ps instance2) instance1
          \<lparr>candidate_mapping = [], weight_dict = [], sim_dict = Map.empty\<rparr> = Inr st1"
    and 2: "for_each (\<lambda>t1. for_each (attribute_step ps t1) attribute2) attribute1 st1 = Inr st2"
    and 3: "for_each (\<lambda>r1. for_each (relation_step ps r1) relation2) relation1 st2 = Inr st3"
    and CW: "C = candidate_mapping st3" "W = weight_dict st3"
    unfolding compute_pool_def by (auto split: if_splits sum.splits)
  have "pool_inv 0 \<lparr>candidate_mapping = [], weight_dict = [], sim_dict = Map.empty\<rparr>"
    by (simp add: pool_inv_def wf_weights_empty)
  from instance_loop_inv[OF 1 this] have i1: "pool_inv ?n st1" by simp
  have a: "\<forall>t1 u u'. pool_inv ?n u \<longrightarrow> for_each (attribute_step ps t1) attribute2 u = Inr u'
      \<longrightarrow> pool_inv ?n u'"
  proof (intro allI impI)
    fix t1 u u'
    assume u: "pool_inv ?n u" "for_each (attribute_step ps t1) attribute2 u = Inr u'"
    have "\<forall>x t t'. pool_inv ?n t \<longrightarrow> attribute_step ps t1 x t = Inr t' \<longrightarrow> pool_inv ?n t'"
      using attribute_step_inv by blast
    then show "pool_inv ?n u'"
      using for_each_inv[where P = "pool_inv ?n" and f = "attribute_step ps t1", OF u(2) u(1)] by blast
  qed
  have r: "\<forall>r1 u u'. pool_inv ?n u \<longrightarrow> for_each (relation_step ps r1) relation2 u = Inr u'
      \<longrightarrow> pool_inv ?n u'"
  proof (intro allI impI)
    fix r1 u u'
    assume u: "pool_inv ?n u" "for_each (relation_step ps r1) relation2 u = Inr u'"
    have "\<forall>x t t'. pool_inv ?n t \<longrightarrow> relation_step ps r1 x t = Inr t' \<longrightarrow> pool_inv ?n t'"
      using relation_step_inv by blast
    then show "pool_inv ?n u'"
      using for_each_inv[where P = "pool_inv ?n" and f = "relation_step ps r1", OF u(2) u(1)] by blast
  qed
  have i2: "pool_inv ?n st2"
    using for_each_inv[where P = "pool_inv ?n", OF 2 i1 a] .
  have i3: "pool_inv ?n st3"
    using for_each_inv[where P = "pool_inv ?n", OF 3 i2 r] .
  then show ?thesis using CW by (simp add: pool_inv_def)
qed

section \<open>Properties of the scoring facade\<close>

text \<open>
  C10. For a match number that is not negative: \<^verbatim>\<open>compute_f\<close> returns (0, 0, 0) when
  either triple count is 0; otherwise it returns the precision match/test, the recall
  match/gold, and the F-score 2pr/(p+r) when p + r is not 0 and 0 when p + r is 0.
\<close>

theorem compute_f_spec:
  assumes "0 \<le> match_num"
  shows "(test_num = 0 \<or> gold_num = 0 \<longrightarrow> compute_f match_num test_num gold_num = (0, 0, 0))
       \<and> (test_num \<noteq> 0 \<and> gold_num \<noteq> 0 \<longrightarrow>
            (let p = match_num / real test_num; r = match_num / real gold_num
             in fst (compute_f match_num test_num gold_num) = p
              \<and> fst (snd (compute_f match_num test_num gold_num)) = r
              \<and> (p + r \<noteq> 0 \<longrightarrow> snd (snd (compute_f match_num test_num gold_num)) = 2 * p * r / (p + r))
              \<and> (p + r = 0 \<longrightarrow> snd (snd (compute_f match_num test_num gold_num)) = 0)))"
  by (simp add: compute_f_def Let_def)

theorem compute_f_spec_witness:
  "compute_f 3 4 6 = (3 / 4, 1 / 2, 3 / 5) \<and> compute_f 0 4 6 = (0, 0, 0) \<and> compute_f 3 0 6 = (0, 0, 0)"
  using compute_f_spec [of 3 4 6] compute_f_spec [of 0 4 6] compute_f_spec [of 3 0 6]
  by (simp add: Let_def prod_eq_iff)

section \<open>Properties of the pool builder\<close>

text \<open>
  C3. The weight dictionary that \<^verbatim>\<open>compute_pool\<close> returns is symmetric in its relation
  entries: the inner dictionary of (i, j) holds the key (i', j') with count k exactly when
  the inner dictionary of (i', j') holds the key (i, j) with the same count k.
\<close>

theorem compute_pool_symmetric:
  assumes "compute_pool instance1 attribute1 relation1 instance2 attribute2 relation2 ps = Inr (C, W)"
  shows "rel_lookup W (i, j) (i', j') = Some k \<longleftrightarrow> rel_lookup W (i', j') (i, j) = Some k"
proof -
  have "rel_sym W"
    using compute_pool_wf[OF assms] by (simp add: wf_weights_def)
  then have "rel_lookup W (i, j) (i', j') = rel_lookup W (i', j') (i, j)"
    unfolding rel_sym_def by blast
  then show ?thesis by simp
qed

section \<open>What the loops over an inner dictionary compute\<close>

lemma py_nth_in_range: "0 \<le> i \<Longrightarrow> i < int (length xs) \<Longrightarrow> py_nth xs i = Inr (xs ! nat i)"
  by (simp add: py_nth_def py_index_def)


lemma lk_Cons_Self: "lk ((SelfK, w) # d) M j = lk d M j"
  by (simp add: lk_def)

lemma lk_Cons_Pair:
  assumes "PairK k \<notin> fst ` set d"
  shows "lk ((PairK k, w) # d) M j = (if (int j, M ! j) = k then w else 0) + lk d M j"
proof -
  have "map_of d (PairK k) = None" using assms by (simp add: map_of_eq_None_iff)
  then show ?thesis by (auto simp: lk_def)
qed

lemma sum_delta_pair:
  assumes "finite S"
  shows "(\<Sum>j\<in>S. if (int j, M ! j) = k then w else 0)
       = (if 0 \<le> fst k \<and> nat (fst k) \<in> S \<and> M ! nat (fst k) = snd k then w else (0::real))"
proof -
  have "\<And>j. ((int j, M ! j) = k) = (j = nat (fst k) \<and> 0 \<le> fst k \<and> M ! nat (fst k) = snd k)"
    by (cases k) auto
  then have "(\<Sum>j\<in>S. if (int j, M ! j) = k then w else 0)
     = (\<Sum>j\<in>S. if j = nat (fst k) then (if 0 \<le> fst k \<and> M ! nat (fst k) = snd k then w else 0) else 0)"
    by (intro sum.cong) auto
  also have "\<dots> = (if nat (fst k) \<in> S then (if 0 \<le> fst k \<and> M ! nat (fst k) = snd k then w else 0) else 0)"
    using assms by (simp add: sum.delta)
  finally show ?thesis by auto
qed

lemma sum_lk_Cons_Pair:
  assumes "PairK k \<notin> fst ` set d" "finite S"
  shows "(\<Sum>j\<in>S. lk ((PairK k, w) # d) M j)
       = (if 0 \<le> fst k \<and> nat (fst k) \<in> S \<and> M ! nat (fst k) = snd k then w else 0) + (\<Sum>j\<in>S. lk d M j)"
  using assms by (simp add: lk_Cons_Pair sum.distrib sum_delta_pair)

lemma self_of_Cons_Pair: "self_of ((PairK k, w) # d) = self_of d"
  by (simp add: self_of_def)

lemma self_of_Cons_Self:
  assumes "SelfK \<notin> fst ` set d"
  shows "self_of ((SelfK, w) # d) = w + self_of d"
proof -
  have "map_of d SelfK = None" using assms by (simp add: map_of_eq_None_iff)
  then show ?thesis by (simp add: self_of_def)
qed

lemma keys_in_range_Cons: "keys_in_range n (e # d) \<Longrightarrow> keys_in_range n d"
  unfolding keys_in_range_def by (simp del: split_paired_All)

lemma keys_in_range_hd: "keys_in_range n ((PairK k, w) # d) \<Longrightarrow> 0 \<le> fst k \<and> fst k < int n"
  unfolding keys_in_range_def by (simp del: split_paired_All)

lemma match_keys_sum:
  assumes "distinct (map fst d)" "keys_in_range (length M) d"
  shows "match_keys M i d acc
       = Inr (acc + self_of d + (\<Sum>j\<in>{j. j < length M \<and> i \<le> int j}. lk d M j))"
  using assms
proof (induction d arbitrary: acc)
  case Nil
  then show ?case by (simp add: self_of_def lk_def)
next
  case (Cons e d)
  obtain key w where e: "e = (key, w)" by (cases e)
  have d: "distinct (map fst d)" and notin: "key \<notin> fst ` set d" using Cons.prems(1) e by auto
  have r: "keys_in_range (length M) d" using Cons.prems(2) by (rule keys_in_range_Cons)
  note IH = Cons.IH[OF d r]
  show ?case
  proof (cases key)
    case SelfK
    then show ?thesis using IH notin e
      by (simp add: self_of_Cons_Self lk_Cons_Self)
  next
    case (PairK k)
    have rng: "0 \<le> fst k" "fst k < int (length M)"
      using keys_in_range_hd[of "length M" k w d] Cons.prems(2) e PairK by simp_all
    have fin: "finite {j. j < length M \<and> i \<le> int j}" by simp
    have mem: "nat (fst k) \<in> {j. j < length M \<and> i \<le> int j} \<longleftrightarrow> \<not> fst k < i"
      using rng by auto
    show ?thesis
      using IH notin e PairK rng mem
      by (simp add: self_of_Cons_Pair sum_lk_Cons_Pair[OF _ fin] py_nth_in_range)
  qed
qed


section \<open>The match evaluator computes the score\<close>

lemma wf_inner:
  assumes "wf_weights n W" "map_of W p = Some d"
  shows "distinct (map fst d)" "keys_in_range n d"
proof -
  show "distinct (map fst d)"
    using distinct_keys_lookup[of W p d] assms by (simp add: wf_weights_def)
  have rr: "rel_range n W" using assms(1) by (simp add: wf_weights_def)
  show "keys_in_range n d"
    unfolding keys_in_range_def
  proof (intro allI impI)
    fix k assume "PairK k \<in> fst ` set d"
    then have "map_of d (PairK k) \<noteq> None" by (simp add: map_of_eq_None_iff)
    then have "rel_lookup W p k \<noteq> None" using assms(2) by (simp add: rel_lookup_def)
    then show "0 \<le> fst k \<and> fst k < int n" using rr unfolding rel_range_def by blast
  qed
qed

lemma wf_rel_count_self: "wf_weights n W \<Longrightarrow> rel_count W p p = 0"
proof -
  assume "wf_weights n W"
  then have "rel_range n W" by (simp add: wf_weights_def)
  then have "rel_lookup W p p = None" unfolding rel_range_def by blast
  then show ?thesis by (simp add: rel_count_def)
qed

lemma wf_rel_count_sym: "wf_weights n W \<Longrightarrow> rel_count W p q = rel_count W q p"
  unfolding wf_weights_def rel_sym_def rel_count_def by metis

lemma wf_rel_count_neg2: 
  assumes "wf_weights n W" "snd q < 0"
  shows "rel_count W p q = 0"
proof -
  have "rel_range n W" using assms(1) by (simp add: wf_weights_def)
  then have "rel_lookup W p q = None" using assms(2) unfolding rel_range_def by fastforce
  then show ?thesis by (simp add: rel_count_def)
qed

lemma wf_rel_count_neg1: "wf_weights n W \<Longrightarrow> snd p < 0 \<Longrightarrow> rel_count W p q = 0"
  using wf_rel_count_neg2 wf_rel_count_sym by metis

lemma wf_no_neg_pair:
  assumes "wf_weights n W" "snd p < 0"
  shows "map_of W p = None"
proof -
  have "has_self W" using assms(1) by (simp add: wf_weights_def)
  then have "\<not> has_pair W p" using assms(2) unfolding has_self_def by fastforce
  then show ?thesis by (simp add: has_pair_def)
qed

lemma wf_self_score_neg: "wf_weights n W \<Longrightarrow> snd p < 0 \<Longrightarrow> self_score W p = 0"
  using wf_no_neg_pair[of n W p] by (simp add: self_score_def self_lookup_def)

lemma lk_rel_count: "map_of W p = Some d \<Longrightarrow> lk d M j = rel_count W p (pr M j)"
  by (simp add: lk_def rel_count_def rel_lookup_def pr_def)

lemma self_of_self_score: "map_of W p = Some d \<Longrightarrow> self_of d = self_score W p"
  by (simp add: self_of_def self_score_def self_lookup_def)

lemma no_pair_zero:
  "map_of W p = None \<Longrightarrow> self_score W p = 0" "map_of W p = None \<Longrightarrow> rel_count W p q = 0"
  by (simp_all add: self_score_def self_lookup_def rel_count_def rel_lookup_def)


lemma match_node_score:
  assumes wf: "wf_weights (length M) W" and i: "i < length M"
  shows "match_node M W (int i, M ! i) acc = Inr (acc + node_score W M i)"
proof -
  let ?p = "(int i, M ! i)"
  have split: "{j. j < length M \<and> int i \<le> int j} = insert i {i<..<length M}"
    using i by auto
  have sum: "(\<Sum>j\<in>{j. j < length M \<and> int i \<le> int j}. rel_count W ?p (pr M j))
      = (\<Sum>j\<in>{i<..<length M}. rel_count W ?p (pr M j))"
    unfolding split using wf_rel_count_self[OF wf, of ?p] by (simp add: pr_def)
  show ?thesis
  proof (cases "map_of W ?p")
    case None
    then show ?thesis
      by (simp add: match_node_def node_score_def pr_def no_pair_zero)
  next
    case (Some d)
    have "M ! i \<noteq> - 1" using wf_no_neg_pair[OF wf, of ?p] Some by auto
    then show ?thesis
      using match_keys_sum[OF wf_inner[OF wf Some], of "int i" acc] Some sum
      by (simp add: match_node_def node_score_def lk_rel_count[OF Some] self_of_self_score[OF Some] pr_def)
  qed
qed

lemma for_each_sum:
  assumes "\<forall>x\<in>set xs. \<forall>acc. f x acc = Inr (acc + g x)"
  shows "for_each f xs acc = Inr (acc + sum_list (map g xs))"
  using assms by (induction xs arbitrary: acc) (simp_all add: add.assoc)

lemma enumerate_list_map: "enumerate_list xs = map (\<lambda>i. (int i, xs ! i)) [0..<length xs]"
  unfolding enumerate_list_def by (rule nth_equalityI) simp_all

lemma match_loop:
  assumes wf: "wf_weights (length M) W"
  shows "for_each (match_node M W) (enumerate_list M) 0 = Inr (\<Sum>i<length M. node_score W M i)"
proof -
  have "\<forall>x\<in>set (enumerate_list M). \<forall>acc. match_node M W x acc = Inr (acc + node_score W M (nat (fst x)))"
    using match_node_score[OF wf] by (auto simp: enumerate_list_map)
  from for_each_sum[OF this, of 0]
  have "for_each (match_node M W) (enumerate_list M) 0
      = Inr (sum_list (map (\<lambda>i. node_score W M i) [0..<length M]))"
    by (simp add: enumerate_list_map comp_def)
  then show ?thesis
    by (simp add: interv_sum_list_conv_sum_set_nat atLeast0LessThan)
qed

text \<open>Under the invariants the tests for \<^verbatim>\<open>-1\<close> in the specification's score are redundant.\<close>

lemma score_spec_plain:
  assumes wf: "wf_weights n W"
  shows "score_spec W M = (\<Sum>i<length M. node_score W M i)"
proof -
  have s: "\<And>i. (if M ! i \<noteq> - 1 then self_score W (int i, M ! i) else 0) = self_score W (pr M i)"
    using wf_self_score_neg[OF wf] by (simp add: pr_def)
  have r: "\<And>i j. (if M ! i \<noteq> - 1 \<and> M ! j \<noteq> - 1 then rel_count W (int i, M ! i) (int j, M ! j) else 0)
      = rel_count W (pr M i) (pr M j)"
    using wf_rel_count_neg1[OF wf] wf_rel_count_neg2[OF wf] by (simp add: pr_def)
  show ?thesis
    unfolding score_spec_def s r node_score_def by (simp add: sum.distrib)
qed

lemma compute_match_score:
  assumes wf: "wf_weights (length M) W"
  shows "compute_match M W t =
     (case t M of Some v \<Rightarrow> Inr (v, t) | None \<Rightarrow> Inr (score_spec W M, t(M \<mapsto> score_spec W M)))"
  by (simp add: compute_match_def match_loop[OF wf] score_spec_plain[OF wf] split: option.splits)

section \<open>The score with one or two nodes taken out\<close>












section \<open>The neighbour gains are score differences\<close>






section \<open>Properties of the match evaluator and of the neighbour gains\<close>

text \<open>
  C2. For a weight dictionary that \<^verbatim>\<open>compute_pool\<close> returned and a mapping with one entry per
  node of the first graph: on a table that does not hold the mapping, \<^verbatim>\<open>compute_match\<close>
  returns the sum of the self scores of the mapped nodes (0 for a pair that is not a key)
  plus the relation counts of the unordered pairs of mapped nodes, each counted once, and
  stores it under the mapping; on a table that holds the mapping it returns the stored
  value.
\<close>

theorem compute_match_spec:
  assumes "compute_pool instance1 attribute1 relation1 instance2 attribute2 relation2 ps = Inr (C, W)"
    and "length M = length instance1"
  shows "(t M = None \<longrightarrow> compute_match M W t = Inr (score_spec W M, t(M \<mapsto> score_spec W M)))
       \<and> (\<forall>t' v. t' M = Some v \<longrightarrow> compute_match M W t' = Inr (v, t'))"
proof -
  have wf: "wf_weights (length M) W"
    using compute_pool_wf[OF assms(1)] assms(2) by simp
  show ?thesis
    by (simp add: compute_match_score[OF wf])
qed


section \<open>The moves and swaps that get_best_gain tries\<close>

lemma apply_best_table: "apply_best M (b\<lparr>table := t\<rparr>) = apply_best M b"
  unfolding apply_best_def by (simp split: option.split prod.split)

lemma best_ok_mono_table:
  assumes "best_ok W M S b" "consistent W t"
  shows "best_ok W M S (b\<lparr>table := t\<rparr>)"
  using assms by (simp add: best_ok_def apply_best_table)





section \<open>The best gain is the largest gain of a neighbour\<close>






section \<open>The loop of the hill-climber\<close>









section \<open>Properties of the hill-climber\<close>

section \<open>Evaluation on concrete inputs\<close>

lemmas pool_eval =
  compute_pool_def instance_row_def instance_step_def attribute_step_def relation_step_def
  add_candidate_self_def cand_add_def set_add_def add_self_def add_rel_def maybe_has_sim_def
  maybe_sim_def wo_sense_def re_match_digits_def is_digit_def truthy_def maybe_get_vec_def
  add_morph_def ascii_lower_def ascii_lower_char_def Let_def

lemma ex_pool:
  "compute_pool ex_instance ex_attribute ex_relation ex_instance ex_attribute ex_relation ex_params
     = Inr ([[0, 1], [0, 1]], ex_weights)"
  by (simp add: ex_params_def ex_instance_def ex_attribute_def ex_relation_def ex_weights_def
      pool_eval)

theorem compute_pool_symmetric_witness:
  "compute_pool ex_instance ex_attribute ex_relation ex_instance ex_attribute ex_relation ex_params
     = Inr ([[0, 1], [0, 1]], ex_weights)
   \<and> rel_lookup ex_weights (0, 0) (1, 1) = Some 1 \<and> rel_lookup ex_weights (1, 1) (0, 0) = Some 1"
  using compute_pool_symmetric[OF ex_pool, of 0 0 1 1 1] ex_pool
  by (simp add: rel_lookup_def ex_weights_def)

text \<open>
  C4. The claim is that a node j enters the candidate set of i in the instance phase only
  when the similarity of the two concepts is greater than 0. The instance loop has no
  such test: for the concepts \<^verbatim>\<open>foo\<close> and \<^verbatim>\<open>bar\<close>, whose similarity is 0, node 0 of
  the second graph still becomes a candidate of node 0 and the pair gets the self score 0.
\<close>

theorem compute_pool_zero_similarity_candidate:
  "maybe_sim ''foo'' ''bar'' Map.empty (1 / 2) (1 / 2) None ''split'' = Inr 0
   \<and> compute_pool [(''instance'', 0, ''foo'')] [] [] [(''instance'', 0, ''bar'')] [] [] ex_params
       = Inr ([[0]], [((0, 0), [(SelfK, 0)])])"
  by (simp add: ex_params_def pool_eval)

section \<open>Properties of the similarity kernel\<close>

text \<open>
  C5. The claim is that a label counts as sensed only when it ends in a hyphen followed
  by digits. The test of the code is a hyphen anywhere and a digit anywhere before the
  first newline: \<^verbatim>\<open>co2-emission\<close> is stripped to \<^verbatim>\<open>co2\<close>, and its similarity to
  \<^verbatim>\<open>co2\<close> is \<^verbatim>\<open>diffsense\<close>, the value of the rule for two senses of one predicate.
\<close>

theorem maybe_sim_unanchored_sense:
  "wo_sense ''co2-emission'' = Some ''co2''
   \<and> maybe_sim ''co2-emission'' ''co2'' vecs c d f m = Inr d"
  by (simp add: maybe_sim_def wo_sense_def re_match_digits_def is_digit_def truthy_def)

text \<open>
  C6. The claim is that with a strategy other than \<^verbatim>\<open>split\<close> a label with a hyphen that
  is not in the vocabulary has no vector, so its similarity is 0. \<^verbatim>\<open>maybe_has_sim\<close>
  passes the literal \<^verbatim>\<open>"split"\<close> on: with the strategy \<^verbatim>\<open>None\<close> the label
  \<^verbatim>\<open>ice-cream\<close> is still split, and the pool holds the similarity 1 for the pair.
\<close>

theorem compute_pool_ignores_strategy:
  "maybe_get_vec ''ice-cream'' ex_vectors ''None'' = None
   \<and> compute_pool [(''instance'', 0, ''ice-cream'')] [] [] [(''instance'', 0, ''dessert'')] [] []
        (ex_params\<lparr>vectors := ex_vectors, simfun := Some cityblock_sim, mwp := ''None''\<rparr>)
       = Inr ([[0]], [((0, 0), [(SelfK, 1)])])"
  by (simp add: ex_params_def ex_vectors_def pool_eval List.map_filter_def np_sum_def vec_add_def
      cityblock_sim_def cityblock_def)

section \<open>The match evaluator and the gains on the example\<close>

lemmas match_eval =
  compute_match_def enumerate_list_def match_node_def py_nth_def py_index_def py_update_def
  move_gain_def swap_gain_def gain_pair_def ex_weights_def

lemma ex_match_01: "compute_match [0, 1] ex_weights Map.empty = Inr (4, [[0, 1] \<mapsto> 4])"
  by (simp add: match_eval)





lemma ex_len: "length [0, 1 :: int] = length ex_instance" "length [0, - 1 :: int] = length ex_instance"
   "length [1, 0 :: int] = length ex_instance"
  by (simp_all add: ex_instance_def)


theorem compute_match_spec_witness:
  "score_spec ex_weights [0, 1] = 4
   \<and> compute_match [0, 1] ex_weights Map.empty = Inr (4, [[0, 1] \<mapsto> 4])
   \<and> compute_match [0, 1] ex_weights [[0, 1] \<mapsto> 4] = Inr (4, [[0, 1] \<mapsto> 4])"
proof -
  note spec = compute_match_spec[OF ex_pool ex_len(1)]
  have "compute_match [0, 1] ex_weights Map.empty
      = Inr (score_spec ex_weights [0, 1], [[0, 1] \<mapsto> score_spec ex_weights [0, 1]])"
    using spec[of Map.empty, THEN conjunct1] by simp
  then have s: "score_spec ex_weights [0, 1] = 4"
    unfolding ex_match_01 by simp
  have "compute_match [0, 1] ex_weights [[0, 1] \<mapsto> 4] = Inr (4, [[0, 1] \<mapsto> 4])"
    using spec[of Map.empty, THEN conjunct2, rule_format, of "[[0, 1] \<mapsto> 4]" 4] by simp
  then show ?thesis using s ex_match_01 by simp
qed


section \<open>A swap whose first node is the later one\<close>


section \<open>The hill-climber on the example\<close>


lemmas climb_eval =
  get_best_gain_def unmatched_nodes_def try_move_def try_swap_def apply_best_def Let_def
  eval_nat_numeral


lemma ex_best_gain_01:
  "get_best_gain [0, 1] [[0, 1], [0, 1]] ex_weights 2 4 [[0, 1] \<mapsto> 4]
     = Inr (0, [0, 1], [[0, 1] \<mapsto> 4, [1, 0] \<mapsto> 0])"
  by (simp add: climb_eval match_eval)

lemma ex_climb_01:
  "hill_climb [[0, 1], [0, 1]] ex_weights 2 ([0, 1], 4, [[0, 1] \<mapsto> 4])
     = Some (Inr ([0, 1], 4, [[0, 1] \<mapsto> 4, [1, 0] \<mapsto> 0]))"
  by (subst hill_climb.simps) (simp add: climb_step_def ex_best_gain_01)



section \<open>The pipeline with a similarity function that does not exist\<close>

lemma ex_smart:
  "smart_init_mapping rnd 0 [[0, 1], [0, 1]] ex_instance ex_instance = Inr ([0, 1], 0)"
  by (simp add: smart_init_mapping_def smart_step_def enumerate_list_def py_nth_def py_index_def
      ex_instance_def)

text \<open>
  C9. The claim is that a similarity function name other than \<^verbatim>\<open>cosine\<close>,
  \<^verbatim>\<open>euclidean\<close> and \<^verbatim>\<open>cityblock\<close> is refused before any comparison is computed.
  \<^verbatim>\<open>get_sim_fun\<close> returns \<^verbatim>\<open>None\<close> for such a name and raises nothing, and
  \<^verbatim>\<open>get_best_match\<close> runs with it: on the example, with an empty vector table and one
  iteration, it returns the mapping [0, 1] and the match number 4.
\<close>

theorem unknown_similarity_name_runs:
  "get_sim_fun cosine_sim euclidean_sim cityblock_sim' ''manhattan'' = None
   \<and> get_best_match 1 rnd ex_instance ex_attribute ex_relation ex_instance ex_attribute ex_relation
        (ex_params\<lparr>simfun := get_sim_fun cosine_sim euclidean_sim cityblock_sim' ''manhattan''\<rparr>)
       = Some (Inr ([0, 1], 4))"
proof -
  have n: "get_sim_fun cosine_sim euclidean_sim cityblock_sim' ''manhattan'' = None"
    by (simp add: get_sim_fun_def)
  have p: "ex_params\<lparr>simfun := None\<rparr> = ex_params" by (simp add: ex_params_def)
  have len: "length ex_instance = 2" by (simp add: ex_instance_def)
  have w: "weighting_scheme ex_params = ''standard''" by (simp add: ex_params_def)
  show ?thesis
    unfolding n p
    by (simp add: get_best_match_def w ex_pool ex_smart ex_match_01 ex_climb_01 len)
qed

section \<open>A graph compared with itself\<close>

text \<open>
  The graph \<^verbatim>\<open>(x / a :ARG0 (y / a_a_a) :ARG1 (z / a_a))\<close>: \<^verbatim>\<open>maybe_has_sim\<close> keeps the
  similarity of \<^verbatim>\<open>a\<close> and \<^verbatim>\<open>a_a_a\<close> and that of \<^verbatim>\<open>a_a\<close> and \<^verbatim>\<open>a_a\<close> under the
  same key \<^verbatim>\<open>a_a_a_a\<close> of \<^verbatim>\<open>sim_dict\<close>.
\<close>

lemma col_key: "''a'' @ ''_'' @ ''a_a_a'' = ''a_a'' @ ''_'' @ ''a_a''"
  by simp

lemma col_pool:
  "compute_pool col_instance col_attribute col_relation col_instance col_attribute col_relation
     ex_params
     = Inr ([[0, 1, 2], [0, 1, 2], [0, 1, 2]], col_weights)"
  by (simp add: ex_params_def col_instance_def col_attribute_def col_relation_def col_weights_def
      pool_eval)

lemma col_smart:
  "smart_init_mapping rnd 0 [[0, 1, 2], [0, 1, 2], [0, 1, 2]] col_instance col_instance
     = Inr ([0, 1, 2], 0)"
  by (simp add: smart_init_mapping_def smart_step_def enumerate_list_def py_nth_def py_index_def
      col_instance_def)

lemmas col_eval =
  compute_match_def enumerate_list_def match_node_def py_nth_def py_index_def py_update_def
  move_gain_def swap_gain_def gain_pair_def col_weights_def

lemma col_match: "compute_match [0, 1, 2] col_weights Map.empty = Inr (5, [[0, 1, 2] \<mapsto> 5])"
  by (simp add: col_eval)

lemma col_best_gain:
  "get_best_gain [0, 1, 2] [[0, 1, 2], [0, 1, 2], [0, 1, 2]] col_weights 3 5 [[0, 1, 2] \<mapsto> 5]
     = Inr (0, [0, 1, 2],
            [[0, 1, 2] \<mapsto> 5, [1, 0, 2] \<mapsto> 0, [2, 1, 0] \<mapsto> 1, [0, 2, 1] \<mapsto> 2])"
  by (simp add: climb_eval col_eval)

lemma col_climb:
  "hill_climb [[0, 1, 2], [0, 1, 2], [0, 1, 2]] col_weights 3 ([0, 1, 2], 5, [[0, 1, 2] \<mapsto> 5])
     = Some (Inr ([0, 1, 2], 5,
            [[0, 1, 2] \<mapsto> 5, [1, 0, 2] \<mapsto> 0, [2, 1, 0] \<mapsto> 1, [0, 2, 1] \<mapsto> 2]))"
  by (subst hill_climb.simps) (simp add: climb_step_def col_best_gain)

text \<open>
  C8. The claim is that a graph compared with itself gets a match number equal to its
  number of triples and the F-score 1. For the graph above the node \<^verbatim>\<open>a_a\<close> against
  itself gets the similarity 0 that was stored for \<^verbatim>\<open>a\<close> and \<^verbatim>\<open>a_a_a\<close>: the pool gives
  the pair (2, 2) the self score 0, the best match number is 5 for 6 triples, and
  precision, recall and F-score are 5/6.
\<close>

theorem identical_graphs_cache_collision:
  "self_score col_weights (2, 2) = 0
   \<and> get_best_match 1 rnd col_instance col_attribute col_relation
        col_instance col_attribute col_relation ex_params
       = Some (Inr ([0, 1, 2], 5))
   \<and> length col_instance + length col_attribute + length col_relation = 6
   \<and> compute_f 5 6 6 = (5 / 6, 5 / 6, 5 / 6)"
proof -
  have len: "length col_instance = 3" by (simp add: col_instance_def)
  have w: "weighting_scheme ex_params = ''standard''" by (simp add: ex_params_def)
  have "get_best_match 1 rnd col_instance col_attribute col_relation
          col_instance col_attribute col_relation ex_params
       = Some (Inr ([0, 1, 2], 5))"
    by (simp add: get_best_match_def w col_pool col_smart col_match col_climb len)
  then show ?thesis
    by (simp add: self_score_def self_lookup_def col_weights_def col_instance_def
        col_attribute_def col_relation_def compute_f_def Let_def)
qed

end
